theory Spec2Isabelle
  imports Complex_Main
begin

section \<open>Numbers of the program\<close>

text \<open>
  The statistics of \<^verbatim>\<open>app.py\<close> are computed on numpy floats. A float is modelled as a
  real number, or as the one value \<open>NotFinite\<close> that stands for numpy's \<^verbatim>\<open>nan\<close> and
  \<^verbatim>\<open>inf\<close>: numpy does not raise on \<^verbatim>\<open>0/0\<close> or on the mean of an empty array, it warns
  and returns such a value, and every operation the program applies to it returns one
  again. Rounding is not modelled: on finite values the operations are those of the reals.
  The program compares no floats; the order below serves the statements about interval
  widths, and holds between finite values only.
\<close>

datatype npfloat = Finite real | NotFinite

instantiation npfloat :: "{plus, minus, times, inverse, ord}"
begin

fun plus_npfloat :: "npfloat \<Rightarrow> npfloat \<Rightarrow> npfloat" where
  "plus_npfloat (Finite a) (Finite b) = Finite (a + b)"
| "plus_npfloat _ _ = NotFinite"

fun minus_npfloat :: "npfloat \<Rightarrow> npfloat \<Rightarrow> npfloat" where
  "minus_npfloat (Finite a) (Finite b) = Finite (a - b)"
| "minus_npfloat _ _ = NotFinite"

fun times_npfloat :: "npfloat \<Rightarrow> npfloat \<Rightarrow> npfloat" where
  "times_npfloat (Finite a) (Finite b) = Finite (a * b)"
| "times_npfloat _ _ = NotFinite"

fun divide_npfloat :: "npfloat \<Rightarrow> npfloat \<Rightarrow> npfloat" where
  "divide_npfloat (Finite a) (Finite b) = (if b = 0 then NotFinite else Finite (a / b))"
| "divide_npfloat _ _ = NotFinite"

definition inverse_npfloat :: "npfloat \<Rightarrow> npfloat" where
  "inverse_npfloat x = divide (Finite 1) x"

fun less_eq_npfloat :: "npfloat \<Rightarrow> npfloat \<Rightarrow> bool" where
  "less_eq_npfloat (Finite a) (Finite b) = (a \<le> b)"
| "less_eq_npfloat _ _ = False"

fun less_npfloat :: "npfloat \<Rightarrow> npfloat \<Rightarrow> bool" where
  "less_npfloat (Finite a) (Finite b) = (a < b)"
| "less_npfloat _ _ = False"

instance ..

end

text \<open>\<^verbatim>\<open>np.sqrt\<close>: not a number below zero.\<close>

fun np_sqrt :: "npfloat \<Rightarrow> npfloat" where
  "np_sqrt (Finite a) = (if a < 0 then NotFinite else Finite (sqrt a))"
| "np_sqrt NotFinite = NotFinite"

text \<open>\<^verbatim>\<open>np.sum\<close> of an array of floats; the sum of no element is 0.\<close>

fun np_sum :: "npfloat list \<Rightarrow> npfloat" where
  "np_sum [] = Finite 0"
| "np_sum (x # xs) = x + np_sum xs"

text \<open>
  \<^verbatim>\<open>np.mean(a)\<close> is the sum over the number of elements; on an empty array the division
  is \<^verbatim>\<open>0/0\<close>, which numpy answers with a warning and \<^verbatim>\<open>nan\<close>.
\<close>

definition np_mean :: "real list \<Rightarrow> npfloat" where
  "np_mean a = Finite (sum_list a) / Finite (real (length a))"

text \<open>
  \<^verbatim>\<open>np.std(a, ddof=d)\<close> as numpy computes it: the deviations from the mean, squared and
  summed, divided by \<^verbatim>\<open>max(N - ddof, 0)\<close> (the truncating subtraction of \<open>nat\<close>), then the
  square root. With \<^verbatim>\<open>N \<le> ddof\<close> the divisor is 0 and the result is not a number.
\<close>

definition np_var :: "real list \<Rightarrow> nat \<Rightarrow> npfloat" where
  "np_var a ddof =
     (let arrmean = np_mean a;
          x = map (\<lambda>v. Finite v - arrmean) a;
          ret = np_sum (map (\<lambda>d. d * d) x);
          rcount = length a - ddof
      in ret / Finite (real rcount))"

definition np_std :: "real list \<Rightarrow> nat \<Rightarrow> npfloat" where
  "np_std a ddof = np_sqrt (np_var a ddof)"

section \<open>The dictionary of intervals\<close>

text \<open>
  A Python \<^verbatim>\<open>dict\<close> keeps its keys in the order of their first insertion; an assignment
  to a key that is present replaces the value in place. It is modelled as an association
  list with that update.
\<close>

fun dict_set :: "('k \<times> 'v) list \<Rightarrow> 'k \<Rightarrow> 'v \<Rightarrow> ('k \<times> 'v) list" where
  "dict_set [] k v = [(k, v)]"
| "dict_set ((k', v') # d) k v =
     (if k' = k then (k', v) # d else (k', v') # dict_set d k v)"

section \<open>The functions of app.py\<close>

type_synonym interval = "npfloat \<times> npfloat"

definition validate_data :: "real list \<Rightarrow> bool \<times> string option" where
  "validate_data data =
     (if length data < 2 then (False, Some ''Not enough data points for analysis.'')
      else (True, None))"

text \<open>
  \<^verbatim>\<open>stats.norm.ppf\<close> belongs to scipy, not to the repository: the calculator takes it as
  the parameter \<open>ppf\<close>. The loop over the levels is a \<open>fold\<close> over the dictionary.
\<close>

definition calculate_confidence_intervals ::
  "(real \<Rightarrow> npfloat) \<Rightarrow> real list \<Rightarrow> real list \<Rightarrow> npfloat \<times> (real \<times> interval) list" where
  "calculate_confidence_intervals ppf data confidence_levels =
     (let mean = np_mean data;
          std_dev = np_std data 1;
          n = length data;
          confidence_intervals = []
      in if n \<le> 1 then (mean, [])
         else (mean,
           fold (\<lambda>confidence confidence_intervals.
                   let z_value = ppf ((1 + confidence) / 2);
                       margin_of_error = z_value * (std_dev / np_sqrt (Finite (real n)))
                   in dict_set confidence_intervals confidence
                        (mean - margin_of_error, mean + margin_of_error))
                confidence_levels confidence_intervals))"

definition default_confidence_levels :: "real list" where
  "default_confidence_levels = [0.90, 0.95, 0.99]"

definition calculate_confidence_interval_se :: "real list \<Rightarrow> real \<Rightarrow> interval option" where
  "calculate_confidence_interval_se data se_value =
     (let mean = np_mean data;
          std_dev = np_std data 1;
          n = length data
      in if n \<le> 1 then None
         else (let standard_error = std_dev / np_sqrt (Finite (real n));
                   margin_of_error = Finite se_value * standard_error
               in Some (mean - margin_of_error, mean + margin_of_error)))"

section \<open>The quantities the specification names\<close>

text \<open>
  The moments as the specification words them: the arithmetic average of the sample, the
  standard deviation with the divisor \<open>n - 1\<close> (unbiased), and the one with the divisor
  \<open>n\<close> (population), which the specification rules out.
\<close>

definition arithmetic_average :: "real list \<Rightarrow> real" where
  "arithmetic_average xs = (\<Sum>i<length xs. xs ! i) / real (length xs)"

definition unbiased_stddev :: "real list \<Rightarrow> real" where
  "unbiased_stddev xs =
     sqrt ((\<Sum>i<length xs. (xs ! i - arithmetic_average xs)\<^sup>2) / (real (length xs) - 1))"

definition population_stddev :: "real list \<Rightarrow> real" where
  "population_stddev xs =
     sqrt ((\<Sum>i<length xs. (xs ! i - arithmetic_average xs)\<^sup>2) / real (length xs))"

text \<open>
  The interval of the specification for a critical value or multiplier \<open>z\<close>:
  \<open>margin = z * stddev / sqrt n\<close> and \<open>(mean - margin, mean + margin)\<close>.
\<close>

definition spec_margin :: "npfloat \<Rightarrow> real list \<Rightarrow> npfloat" where
  "spec_margin z xs = z * Finite (unbiased_stddev xs) / Finite (sqrt (real (length xs)))"

definition spec_interval :: "npfloat \<Rightarrow> real list \<Rightarrow> interval" where
  "spec_interval z xs =
     (Finite (arithmetic_average xs) - spec_margin z xs,
      Finite (arithmetic_average xs) + spec_margin z xs)"

text \<open>The half-width of an interval, its margin of error.\<close>

definition half_width :: "interval \<Rightarrow> npfloat" where
  "half_width iv = (snd iv - fst iv) / Finite 2"

text \<open>
  What the monotonicity in the confidence level needs of the quantile function, and what
  the quantile function of the standard normal distribution has: it is 0 at \<open>1/2\<close> and,
  from there up to 1, finite and strictly increasing.
\<close>

definition increasing_quantile :: "(real \<Rightarrow> npfloat) \<Rightarrow> bool" where
  "increasing_quantile ppf \<longleftrightarrow>
     ppf (1 / 2) = Finite 0 \<and> (\<forall>p q. 1 / 2 \<le> p \<and> p < q \<and> q < 1 \<longrightarrow> ppf p < ppf q)"

text \<open>
  A concrete quantile function for the closed instances below, which need one: that of the
  uniform distribution on \<open>[-1, 1]\<close> (scipy's \<^verbatim>\<open>uniform(-1, 2).ppf\<close>). It is not a number
  outside \<open>[0, 1]\<close>, as \<^verbatim>\<open>norm.ppf\<close> is. Every general theorem holds for any \<open>ppf\<close>.
\<close>

definition uniform_ppf :: "real \<Rightarrow> npfloat" where
  "uniform_ppf p = (if 0 \<le> p \<and> p \<le> 1 then Finite (2 * p - 1) else NotFinite)"

section \<open>The moments\<close>

lemma np_sum_Finite: "np_sum (map Finite xs) = Finite (sum_list xs)"
  by (induction xs) simp_all

lemma np_mean_eq: "a \<noteq> [] \<Longrightarrow> np_mean a = Finite (sum_list a / real (length a))"
  by (simp add: np_mean_def)

lemma np_var_eq:
  assumes "ddof < length a"
  shows "np_var a ddof =
    Finite ((\<Sum>v\<leftarrow>a. (v - sum_list a / real (length a))\<^sup>2) / real (length a - ddof))"
proof -
  from assms have ne: "a \<noteq> []" by auto
  have "map (\<lambda>d. d * d) (map (\<lambda>v. Finite v - Finite m) a) = map Finite (map (\<lambda>v. (v - m)\<^sup>2) a)" for m
    by (simp add: power2_eq_square)
  then show ?thesis
    using assms ne by (simp add: np_var_def np_mean_eq np_sum_Finite Let_def del: map_map)
qed

lemma np_std_eq:
  assumes "ddof < length a"
  shows "np_std a ddof =
    Finite (sqrt ((\<Sum>v\<leftarrow>a. (v - sum_list a / real (length a))\<^sup>2) / real (length a - ddof)))"
proof -
  have "0 \<le> (\<Sum>v\<leftarrow>a. (v - sum_list a / real (length a))\<^sup>2)"
    by (rule sum_list_nonneg) auto
  then have "\<not> (\<Sum>v\<leftarrow>a. (v - sum_list a / real (length a))\<^sup>2) / real (length a - ddof) < 0"
    by (simp add: not_less)
  then show ?thesis
    by (simp add: np_std_def np_var_eq [OF assms])
qed

lemma np_std_short: "length a \<le> ddof \<Longrightarrow> np_std a ddof = NotFinite"
  by (cases "np_sum (map (\<lambda>d. d * d) (map (\<lambda>v. Finite v - np_mean a) a))")
     (simp_all add: np_std_def np_var_def Let_def)

lemma sum_list_nth: "sum_list (map f xs) = (\<Sum>i<length xs. f (xs ! i))"
proof -
  have "sum_list (map f xs) = (\<Sum>i = 0..<length (map f xs). map f xs ! i)"
    by (rule sum_list_sum_nth)
  also have "\<dots> = (\<Sum>i<length xs. f (xs ! i))"
    by (simp add: atLeast0LessThan)
  finally show ?thesis .
qed

lemma sum_list_average: "sum_list xs / real (length xs) = arithmetic_average xs"
  using sum_list_nth [of "\<lambda>x. x" xs] by (simp add: arithmetic_average_def)

lemma np_mean_average: "xs \<noteq> [] \<Longrightarrow> np_mean xs = Finite (arithmetic_average xs)"
  by (simp add: np_mean_eq sum_list_average)

lemma np_std_unbiased: "2 \<le> length xs \<Longrightarrow> np_std xs 1 = Finite (unbiased_stddev xs)"
proof -
  assume n: "2 \<le> length xs"
  then have "real (length xs - 1) = real (length xs) - 1" by (simp add: of_nat_diff)
  with n show ?thesis
    by (simp add: np_std_eq sum_list_average unbiased_stddev_def
        sum_list_nth [of "\<lambda>v. (v - arithmetic_average xs)\<^sup>2" xs])
qed

lemma np_std_population: "xs \<noteq> [] \<Longrightarrow> np_std xs 0 = Finite (population_stddev xs)"
  by (simp add: np_std_eq sum_list_average population_stddev_def
        sum_list_nth [of "\<lambda>v. (v - arithmetic_average xs)\<^sup>2" xs])

lemma unbiased_population:
  assumes "2 \<le> length xs"
  shows "unbiased_stddev xs = sqrt (real (length xs) / (real (length xs) - 1)) * population_stddev xs"
proof -
  let ?S = "(\<Sum>i<length xs. (xs ! i - arithmetic_average xs)\<^sup>2)"
  let ?n = "real (length xs)"
  from assms have "?n \<noteq> 0" by auto
  then have "?S / (?n - 1) = (?n / (?n - 1)) * (?S / ?n)" by simp
  then show ?thesis
    by (simp only: unbiased_stddev_def population_stddev_def real_sqrt_mult)
qed

section \<open>The calculators on samples of two or more elements\<close>

lemma two_le_length_ne: "2 \<le> length xs \<Longrightarrow> xs \<noteq> []"
  by (cases xs) simp_all

lemma np_mean_short:
  "length data \<le> 1 \<Longrightarrow> np_mean data = (case data of [] \<Rightarrow> NotFinite | x # _ \<Rightarrow> Finite x)"
  by (cases data) (simp_all add: np_mean_def)

lemma se_interval:
  assumes "2 \<le> length data"
  shows "calculate_confidence_interval_se data k =
    Some (Finite (arithmetic_average data - k * (unbiased_stddev data / sqrt (real (length data)))),
          Finite (arithmetic_average data + k * (unbiased_stddev data / sqrt (real (length data)))))"
proof -
  from assms have ne: "data \<noteq> []" by (rule two_le_length_ne)
  have m: "np_mean data = Finite (arithmetic_average data)"
    by (rule np_mean_average [OF ne])
  have s: "np_std data 1 = Finite (unbiased_stddev data)"
    by (rule np_std_unbiased [OF assms])
  show ?thesis
    unfolding calculate_confidence_interval_se_def Let_def m s
    using assms ne by simp
qed

lemma z_intervals:
  assumes "2 \<le> length data"
  shows "calculate_confidence_intervals ppf data levels =
    (Finite (arithmetic_average data),
     fold (\<lambda>c d. dict_set d c
        (Finite (arithmetic_average data)
           - ppf ((1 + c) / 2) * Finite (unbiased_stddev data / sqrt (real (length data))),
         Finite (arithmetic_average data)
           + ppf ((1 + c) / 2) * Finite (unbiased_stddev data / sqrt (real (length data)))))
       levels [])"
proof -
  from assms have ne: "data \<noteq> []" by (rule two_le_length_ne)
  have m: "np_mean data = Finite (arithmetic_average data)"
    by (rule np_mean_average [OF ne])
  have s: "np_std data 1 = Finite (unbiased_stddev data)"
    by (rule np_std_unbiased [OF assms])
  show ?thesis
    unfolding calculate_confidence_intervals_def Let_def m s
    using assms ne by simp
qed

lemma unbiased_stddev_nonneg: "2 \<le> length xs \<Longrightarrow> 0 \<le> unbiased_stddev xs"
  by (simp add: unbiased_stddev_def sum_nonneg)

lemma population_le_unbiased:
  assumes "2 \<le> length xs"
  shows "population_stddev xs \<le> unbiased_stddev xs"
    and "0 < unbiased_stddev xs \<Longrightarrow> population_stddev xs < unbiased_stddev xs"
proof -
  let ?S = "(\<Sum>i<length xs. (xs ! i - arithmetic_average xs)\<^sup>2)"
  let ?n = "real (length xs)"
  have S: "0 \<le> ?S" by (simp add: sum_nonneg)
  from assms have n: "1 < ?n" by simp
  then have "?S / ?n \<le> ?S / (?n - 1)"
    using S by (intro frac_le) auto
  then show "population_stddev xs \<le> unbiased_stddev xs"
    by (simp add: population_stddev_def unbiased_stddev_def)
  assume "0 < unbiased_stddev xs"
  then have "?S \<noteq> 0" by (auto simp: unbiased_stddev_def)
  with S have "0 < ?S" by simp
  moreover from n have "0 < ?n * (?n - 1)" by (intro mult_pos_pos) auto
  ultimately have "?S / ?n < ?S / (?n - 1)"
    by (intro divide_strict_left_mono) auto
  then show "population_stddev xs < unbiased_stddev xs"
    by (simp add: population_stddev_def unbiased_stddev_def)
qed

section \<open>Moments of the samples used as instances\<close>

lemma average_1_3: "arithmetic_average [1, 3] = 2"
  by (simp add: arithmetic_average_def lessThan_Suc)

lemma unbiased_1_3: "unbiased_stddev [1, 3] = sqrt 2"
  by (simp add: unbiased_stddev_def average_1_3 lessThan_Suc)

lemma population_1_3: "population_stddev [1, 3] = 1"
  by (simp add: population_stddev_def average_1_3 lessThan_Suc)

lemma average_1_to_5: "arithmetic_average [1, 2, 3, 4, 5] = 3"
  by (simp add: arithmetic_average_def lessThan_Suc)

section \<open>Lookup in the dictionary the loop builds\<close>

lemma map_of_dict_set: "map_of (dict_set d k v) = (map_of d)(k \<mapsto> v)"
  by (induction d) (auto simp: fun_eq_iff)

lemma map_of_fold_dict_set:
  "map_of (fold (\<lambda>c d. dict_set d c (f c)) cs d) k =
     (if k \<in> set cs then Some (f k) else map_of d k)"
  by (induction cs arbitrary: d) (simp_all add: map_of_dict_set)

lemma margin_agree:
  "xs \<noteq> [] \<Longrightarrow> z * Finite (unbiased_stddev xs / sqrt (real (length xs))) = spec_margin z xs"
  by (cases z) (simp_all add: spec_margin_def)

lemma spec_interval_Finite:
  "xs \<noteq> [] \<Longrightarrow> spec_interval (Finite z) xs =
     (Finite (arithmetic_average xs - z * unbiased_stddev xs / sqrt (real (length xs))),
      Finite (arithmetic_average xs + z * unbiased_stddev xs / sqrt (real (length xs))))"
  by (simp add: spec_interval_def spec_margin_def)

lemma se_spec:
  assumes "2 \<le> length data"
  shows "calculate_confidence_interval_se data k = Some (spec_interval (Finite k) data)"
  using se_interval [OF assms, of k] two_le_length_ne [OF assms]
  by (simp add: spec_interval_Finite)

lemma z_spec:
  assumes "2 \<le> length data"
  shows "calculate_confidence_intervals ppf data levels =
    (Finite (arithmetic_average data),
     fold (\<lambda>c d. dict_set d c (spec_interval (ppf ((1 + c) / 2)) data)) levels [])"
  using two_le_length_ne [OF assms]
  by (simp add: z_intervals [OF assms] margin_agree spec_interval_def)

lemma z_lookup:
  assumes "2 \<le> length data"
  shows "map_of (snd (calculate_confidence_intervals ppf data levels)) c =
    (if c \<in> set levels then Some (spec_interval (ppf ((1 + c) / 2)) data) else None)"
  by (simp add: z_spec [OF assms] map_of_fold_dict_set)

lemma dict_set_same:
  "dict_set (map (\<lambda>c. (c, f c)) ks) k (f k) =
     (if k \<in> set ks then map (\<lambda>c. (c, f c)) ks else map (\<lambda>c. (c, f c)) ks @ [(k, f k)])"
  by (induction ks) auto

lemma fold_dict_set_eq:
  "fold (\<lambda>c d. dict_set d c (f c)) cs [] = map (\<lambda>c. (c, f c)) (rev (remdups (rev cs)))"
proof (induction cs rule: rev_induct)
  case Nil
  then show ?case by simp
next
  case (snoc c cs)
  then show ?case
    using dict_set_same [of f "rev (remdups (rev cs))" c] by simp
qed

lemma z_entries:
  assumes "2 \<le> length data"
  shows "snd (calculate_confidence_intervals ppf data levels) =
    map (\<lambda>c. (c, spec_interval (ppf ((1 + c) / 2)) data)) (rev (remdups (rev levels)))"
  by (simp add: z_spec [OF assms] fold_dict_set_eq)

lemma z_short: "length data \<le> 1 \<Longrightarrow> snd (calculate_confidence_intervals ppf data levels) = []"
  by (simp add: calculate_confidence_intervals_def Let_def)

lemma se_Some_length: "calculate_confidence_interval_se data k = Some iv \<Longrightarrow> 2 \<le> length data"
  by (cases "length data \<le> 1") (simp_all add: calculate_confidence_interval_se_def Let_def)

lemma z_member_length:
  "e \<in> set (snd (calculate_confidence_intervals ppf data levels)) \<Longrightarrow> 2 \<le> length data"
  by (cases "length data \<le> 1") (simp_all add: z_short)

lemma z_member_interval:
  assumes "(c, iv) \<in> set (snd (calculate_confidence_intervals ppf data levels))"
  shows "iv = spec_interval (ppf ((1 + c) / 2)) data"
  using assms by (auto simp: z_entries [OF z_member_length [OF assms]])

section \<open>Half-widths\<close>

lemma sqrt_length_pos: "2 \<le> length data \<Longrightarrow> 0 < sqrt (real (length data))"
  using two_le_length_ne [of data] by simp

lemma half_width_Finite: "half_width (Finite (m - e), Finite (m + e)) = Finite e"
  by (simp add: half_width_def)

lemma half_width_se:
  assumes "2 \<le> length data" and "calculate_confidence_interval_se data k = Some iv"
  shows "half_width iv = Finite (k * (unbiased_stddev data / sqrt (real (length data))))"
  using assms(2) unfolding se_interval [OF assms(1)] by (auto simp: half_width_Finite)

lemma half_width_z:
  assumes "2 \<le> length data"
    and "map_of (snd (calculate_confidence_intervals ppf data levels)) c = Some iv"
    and "ppf ((1 + c) / 2) = Finite z"
  shows "half_width iv = Finite (z * (unbiased_stddev data / sqrt (real (length data))))"
proof -
  have ne: "data \<noteq> []" by (rule two_le_length_ne [OF assms(1)])
  from assms(2) have "iv = spec_interval (ppf ((1 + c) / 2)) data"
    by (simp add: z_lookup [OF assms(1)] split: if_splits)
  then show ?thesis
    unfolding assms(3) spec_interval_Finite [OF ne]
    using half_width_Finite
      [of "arithmetic_average data" "z * unbiased_stddev data / sqrt (real (length data))"]
    by simp
qed

lemma standard_error_nonneg:
  "2 \<le> length data \<Longrightarrow> 0 \<le> unbiased_stddev data / sqrt (real (length data))"
  by (simp add: unbiased_stddev_nonneg)

lemma quantile_pos:
  assumes "increasing_quantile ppf" and "0 < c" and "c < 1"
  obtains z where "ppf ((1 + c) / 2) = Finite z" and "0 < z"
proof -
  from assms(2,3) have "1 / 2 \<le> (1 / 2 :: real) \<and> 1 / 2 < (1 + c) / 2 \<and> (1 + c) / 2 < 1"
    by simp
  with assms(1) have "ppf (1 / 2) < ppf ((1 + c) / 2)"
    unfolding increasing_quantile_def by blast
  moreover from assms(1) have "ppf (1 / 2) = Finite 0"
    by (simp add: increasing_quantile_def)
  ultimately have "Finite 0 < ppf ((1 + c) / 2)" by simp
  then show thesis
    by (cases "ppf ((1 + c) / 2)") (auto intro: that)
qed

lemma quantile_mono:
  assumes "increasing_quantile ppf" and "0 < c1" and "c1 < c2" and "c2 < 1"
    and "ppf ((1 + c1) / 2) = Finite z1" and "ppf ((1 + c2) / 2) = Finite z2"
  shows "z1 < z2"
proof -
  from assms(2-4) have "1 / 2 \<le> (1 + c1) / 2 \<and> (1 + c1) / 2 < (1 + c2) / 2 \<and> (1 + c2) / 2 < 1"
    by simp
  with assms(1) have "ppf ((1 + c1) / 2) < ppf ((1 + c2) / 2)"
    unfolding increasing_quantile_def by blast
  then show ?thesis by (simp add: assms(5,6))
qed

lemma margin_level_mono:
  assumes n: "2 \<le> length data" and q: "increasing_quantile ppf"
    and c: "0 < c1" "c1 \<le> c2" "c2 < 1"
    and l1: "map_of (snd (calculate_confidence_intervals ppf data levels)) c1 = Some iv1"
    and l2: "map_of (snd (calculate_confidence_intervals ppf data levels)) c2 = Some iv2"
  shows "half_width iv1 \<le> half_width iv2"
    and "c1 < c2 \<Longrightarrow> Finite 0 < np_std data 1 \<Longrightarrow> half_width iv1 < half_width iv2"
proof -
  let ?e = "unbiased_stddev data / sqrt (real (length data))"
  from c have c1': "c1 < 1" and c2': "0 < c2" by simp_all
  obtain z1 where z1: "ppf ((1 + c1) / 2) = Finite z1" "0 < z1"
    by (rule quantile_pos [OF q c(1) c1'])
  obtain z2 where z2: "ppf ((1 + c2) / 2) = Finite z2" "0 < z2"
    by (rule quantile_pos [OF q c2' c(3)])
  have h1: "half_width iv1 = Finite (z1 * ?e)" by (rule half_width_z [OF n l1 z1(1)])
  have h2: "half_width iv2 = Finite (z2 * ?e)" by (rule half_width_z [OF n l2 z2(1)])
  have e: "0 \<le> ?e" by (rule standard_error_nonneg [OF n])
  have "z1 \<le> z2"
  proof (cases "c1 = c2")
    case True
    with z1 z2 show ?thesis by simp
  next
    case False
    with c(2) have "c1 < c2" by simp
    from quantile_mono [OF q c(1) this c(3) z1(1) z2(1)] show ?thesis by simp
  qed
  then have "z1 * ?e \<le> z2 * ?e" using e by (rule mult_right_mono)
  then show "half_width iv1 \<le> half_width iv2" by (simp add: h1 h2)
  assume lt: "c1 < c2" and s: "Finite 0 < np_std data 1"
  from s have "0 < unbiased_stddev data" unfolding np_std_unbiased [OF n] by simp
  moreover have "0 < sqrt (real (length data))" by (rule sqrt_length_pos [OF n])
  ultimately have "0 < ?e" by (rule divide_pos_pos)
  with quantile_mono [OF q c(1) lt c(3) z1(1) z2(1)]
  have "z1 * ?e < z2 * ?e" by (rule mult_strict_right_mono)
  then show "half_width iv1 < half_width iv2" by (simp add: h1 h2)
qed

lemma margin_multiplier_mono:
  assumes n: "2 \<le> length data" and k: "k1 \<le> k2"
    and l1: "calculate_confidence_interval_se data k1 = Some iv1"
    and l2: "calculate_confidence_interval_se data k2 = Some iv2"
  shows "half_width iv1 \<le> half_width iv2"
    and "k1 < k2 \<Longrightarrow> Finite 0 < np_std data 1 \<Longrightarrow> half_width iv1 < half_width iv2"
proof -
  let ?e = "unbiased_stddev data / sqrt (real (length data))"
  have h1: "half_width iv1 = Finite (k1 * ?e)" by (rule half_width_se [OF n l1])
  have h2: "half_width iv2 = Finite (k2 * ?e)" by (rule half_width_se [OF n l2])
  have e: "0 \<le> ?e" by (rule standard_error_nonneg [OF n])
  from k e have "k1 * ?e \<le> k2 * ?e" by (rule mult_right_mono)
  then show "half_width iv1 \<le> half_width iv2" by (simp add: h1 h2)
  assume lt: "k1 < k2" and s: "Finite 0 < np_std data 1"
  from s have "0 < unbiased_stddev data" unfolding np_std_unbiased [OF n] by simp
  moreover have "0 < sqrt (real (length data))" by (rule sqrt_length_pos [OF n])
  ultimately have "0 < ?e" by (rule divide_pos_pos)
  with lt have "k1 * ?e < k2 * ?e" by (rule mult_strict_right_mono)
  then show "half_width iv1 < half_width iv2" by (simp add: h1 h2)
qed

lemma standard_error_antimono:
  assumes n: "2 \<le> length data" and n': "length data \<le> length data'"
    and s: "np_std data' 1 = np_std data 1"
  shows "unbiased_stddev data' / sqrt (real (length data'))
       \<le> unbiased_stddev data / sqrt (real (length data))"
proof -
  from n n' have m: "2 \<le> length data'" by simp
  from s have eq: "unbiased_stddev data' = unbiased_stddev data"
    unfolding np_std_unbiased [OF n] np_std_unbiased [OF m] by simp
  have a: "0 \<le> unbiased_stddev data" by (rule unbiased_stddev_nonneg [OF n])
  have b: "0 < sqrt (real (length data))" by (rule sqrt_length_pos [OF n])
  from n' have c: "sqrt (real (length data)) \<le> sqrt (real (length data'))" by simp
  show ?thesis
    unfolding eq by (rule frac_le [OF a order_refl b c])
qed

lemma margin_size_se:
  assumes n: "2 \<le> length data" and n': "length data \<le> length data'"
    and s: "np_std data' 1 = np_std data 1" and k: "0 \<le> k"
    and l: "calculate_confidence_interval_se data k = Some iv"
    and l': "calculate_confidence_interval_se data' k = Some iv'"
  shows "half_width iv' \<le> half_width iv"
proof -
  from n n' have m: "2 \<le> length data'" by simp
  have "k * (unbiased_stddev data' / sqrt (real (length data')))
      \<le> k * (unbiased_stddev data / sqrt (real (length data)))"
    using standard_error_antimono [OF n n' s] k by (rule mult_left_mono)
  then show ?thesis
    by (simp add: half_width_se [OF n l] half_width_se [OF m l'])
qed

lemma margin_size_z:
  assumes n: "2 \<le> length data" and q: "increasing_quantile ppf"
    and n': "length data \<le> length data'"
    and s: "np_std data' 1 = np_std data 1" and c: "0 < c" "c < 1"
    and l: "map_of (snd (calculate_confidence_intervals ppf data levels)) c = Some iv"
    and l': "map_of (snd (calculate_confidence_intervals ppf data' levels')) c = Some iv'"
  shows "half_width iv' \<le> half_width iv"
proof -
  from n n' have m: "2 \<le> length data'" by simp
  obtain z where z: "ppf ((1 + c) / 2) = Finite z" "0 < z"
    by (rule quantile_pos [OF q c])
  from z(2) have "0 \<le> z" by simp
  with standard_error_antimono [OF n n' s]
  have "z * (unbiased_stddev data' / sqrt (real (length data')))
      \<le> z * (unbiased_stddev data / sqrt (real (length data)))"
    by (rule mult_left_mono)
  then show ?thesis
    by (simp add: half_width_z [OF n l z(1)] half_width_z [OF m l' z(1)])
qed

section \<open>Instances for the monotonicity statements\<close>

lemma uniform_ppf_increasing: "increasing_quantile uniform_ppf"
  by (simp add: increasing_quantile_def uniform_ppf_def)

lemma average_const: "arithmetic_average [x, x] = x"
  by (simp add: arithmetic_average_def lessThan_Suc)

lemma unbiased_const: "unbiased_stddev [x, x] = 0"
  by (simp add: unbiased_stddev_def average_const lessThan_Suc)

lemma constant_sample_zero_width:
  assumes "c \<in> set levels" and "ppf ((1 + c) / 2) = Finite z"
  shows "map_of (snd (calculate_confidence_intervals ppf [x, x] levels)) c = Some (Finite x, Finite x)"
proof -
  have n: "2 \<le> length [x, x]" by simp
  show ?thesis
    using assms
    by (simp add: z_lookup [OF n] spec_interval_def spec_margin_def average_const unbiased_const)
qed

lemma average_4: "arithmetic_average [2, - 1, - 1, 0] = 0"
  by (simp add: arithmetic_average_def lessThan_Suc)

lemma unbiased_4: "unbiased_stddev [2, - 1, - 1, 0] = sqrt 2"
  by (simp add: unbiased_stddev_def average_4 lessThan_Suc)

section \<open>The z-interval calculator\<close>

text \<open>
  C1. For a sample of at least two elements and every level \<open>c\<close> of the sequence passed,
  \<open>calculate_confidence_intervals\<close> returns the arithmetic average as its first component
  and maps \<open>c\<close> to \<open>(mean - margin, mean + margin)\<close>, where \<open>z = ppf ((1 + c) / 2)\<close>,
  \<open>margin = z * stddev / sqrt n\<close> and \<open>stddev\<close> is the unbiased standard deviation; where
  \<open>z\<close> is finite the bounds are the real numbers of that formula.
\<close>

theorem z_interval_per_level:
  assumes "2 \<le> length data" and "c \<in> set levels"
  shows "fst (calculate_confidence_intervals ppf data levels) = Finite (arithmetic_average data)
    \<and> map_of (snd (calculate_confidence_intervals ppf data levels)) c
        = Some (spec_interval (ppf ((1 + c) / 2)) data)
    \<and> (\<forall>z. ppf ((1 + c) / 2) = Finite z \<longrightarrow>
          map_of (snd (calculate_confidence_intervals ppf data levels)) c
            = Some (Finite (arithmetic_average data
                      - z * unbiased_stddev data / sqrt (real (length data))),
                    Finite (arithmetic_average data
                      + z * unbiased_stddev data / sqrt (real (length data)))))"
proof -
  have ne: "data \<noteq> []" by (rule two_le_length_ne [OF assms(1)])
  have m: "fst (calculate_confidence_intervals ppf data levels) = Finite (arithmetic_average data)"
    by (simp add: z_spec [OF assms(1)])
  have l: "map_of (snd (calculate_confidence_intervals ppf data levels)) c
        = Some (spec_interval (ppf ((1 + c) / 2)) data)"
    using assms(2) by (simp add: z_lookup [OF assms(1)])
  show ?thesis
    unfolding l m by (simp add: spec_interval_Finite [OF ne])
qed

theorem z_interval_per_level_witness:
  "2 \<le> length [1, 3 :: real] \<and> 95 / 100 \<in> set [90 / 100, 95 / 100, 99 / 100 :: real]
   \<and> uniform_ppf ((1 + 95 / 100) / 2) = Finite (95 / 100)
   \<and> fst (calculate_confidence_intervals uniform_ppf [1, 3] [90 / 100, 95 / 100, 99 / 100]) = Finite 2
   \<and> map_of (snd (calculate_confidence_intervals uniform_ppf [1, 3] [90 / 100, 95 / 100, 99 / 100]))
        (95 / 100) = Some (Finite (105 / 100), Finite (295 / 100))"
  using z_interval_per_level [of "[1, 3]" "95 / 100" "[90 / 100, 95 / 100, 99 / 100]" uniform_ppf]
  by (simp add: uniform_ppf_def average_1_3 unbiased_1_3 spec_interval_def spec_margin_def)

section \<open>The moment estimator\<close>

text \<open>
  C2. For a sample of at least two elements, the mean both calculators compute is the
  arithmetic average of the sample, and their standard deviation (\<^verbatim>\<open>np.std\<close> with
  \<^verbatim>\<open>ddof=1\<close>) is \<open>sqrt (\<Sum>(x\<^sub>i - mean)\<^sup>2 / (n - 1))\<close>. It is the population value times
  \<open>sqrt (n / (n - 1))\<close>, and differs from it unless both are 0. The first component of the
  z-interval result is that mean, and the interval of one standard error shows that
  standard deviation.
\<close>

theorem moments_unbiased:
  assumes "2 \<le> length data"
  shows "np_mean data = Finite (arithmetic_average data)
    \<and> np_std data 1 = Finite (unbiased_stddev data)
    \<and> unbiased_stddev data
        = sqrt (real (length data) / (real (length data) - 1)) * population_stddev data
    \<and> (0 < unbiased_stddev data \<longrightarrow> np_std data 1 \<noteq> Finite (population_stddev data))
    \<and> fst (calculate_confidence_intervals ppf data levels) = Finite (arithmetic_average data)
    \<and> calculate_confidence_interval_se data 1 =
        Some (Finite (arithmetic_average data - unbiased_stddev data / sqrt (real (length data))),
              Finite (arithmetic_average data + unbiased_stddev data / sqrt (real (length data))))"
proof -
  from assms have ne: "data \<noteq> []" by (rule two_le_length_ne)
  have m: "np_mean data = Finite (arithmetic_average data)"
    by (rule np_mean_average [OF ne])
  have s: "np_std data 1 = Finite (unbiased_stddev data)"
    by (rule np_std_unbiased [OF assms])
  have f: "unbiased_stddev data
        = sqrt (real (length data) / (real (length data) - 1)) * population_stddev data"
    by (rule unbiased_population [OF assms])
  have p: "0 < unbiased_stddev data \<longrightarrow> np_std data 1 \<noteq> Finite (population_stddev data)"
    unfolding s using population_le_unbiased(2) [OF assms] by auto
  have z: "fst (calculate_confidence_intervals ppf data levels) = Finite (arithmetic_average data)"
    by (simp add: z_intervals [OF assms])
  have e: "calculate_confidence_interval_se data 1 =
        Some (Finite (arithmetic_average data - unbiased_stddev data / sqrt (real (length data))),
              Finite (arithmetic_average data + unbiased_stddev data / sqrt (real (length data))))"
    using se_interval [OF assms, of 1] by simp
  from m s f p z e show ?thesis by blast
qed

theorem moments_unbiased_witness:
  "2 \<le> length [1, 3 :: real]
   \<and> np_mean [1, 3] = Finite 2
   \<and> np_std [1, 3] 1 = Finite (sqrt 2)
   \<and> population_stddev [1, 3] = 1
   \<and> 0 < unbiased_stddev [1, 3]
   \<and> np_std [1, 3] 1 \<noteq> Finite (population_stddev [1, 3])
   \<and> fst (calculate_confidence_intervals uniform_ppf [1, 3] [0.95]) = Finite 2
   \<and> calculate_confidence_interval_se [1, 3] 1 = Some (Finite 1, Finite 3)"
  using moments_unbiased [of "[1, 3]" uniform_ppf "[0.95]"]
  by (simp add: average_1_3 unbiased_1_3 population_1_3)


section \<open>One entry per distinct level\<close>

text \<open>
  C3, as the code has it. The result is a Python \<^verbatim>\<open>dict\<close> keyed by the level. For a sample
  of at least two elements its entries are the pairs (level, interval of that level) of the
  levels passed, each level once, in the order of first occurrence: a level passed again is
  assigned again under the same key and adds no entry. When the levels passed are pairwise
  distinct there is one entry per element, in the order passed.
\<close>

theorem z_entries_first_occurrence:
  assumes "2 \<le> length data"
  shows "snd (calculate_confidence_intervals ppf data levels) =
      map (\<lambda>c. (c, spec_interval (ppf ((1 + c) / 2)) data)) (rev (remdups (rev levels)))
    \<and> (distinct levels \<longrightarrow>
         snd (calculate_confidence_intervals ppf data levels) =
           map (\<lambda>c. (c, spec_interval (ppf ((1 + c) / 2)) data)) levels)"
proof -
  have "rev (remdups (rev levels)) = levels" if "distinct levels"
    using that by (simp add: distinct_remdups_id)
  then show ?thesis
    by (simp add: z_entries [OF assms])
qed

theorem z_entries_first_occurrence_witness:
  "2 \<le> length [1, 3 :: real] \<and> distinct [99 / 100, 90 / 100, 95 / 100 :: real]
   \<and> snd (calculate_confidence_intervals uniform_ppf [1, 3] [99 / 100, 90 / 100, 95 / 100]) =
       [(99 / 100, (Finite (101 / 100), Finite (299 / 100))),
        (90 / 100, (Finite (110 / 100), Finite (290 / 100))),
        (95 / 100, (Finite (105 / 100), Finite (295 / 100)))]
   \<and> snd (calculate_confidence_intervals uniform_ppf [1, 3] [90 / 100, 95 / 100, 90 / 100]) =
       [(90 / 100, (Finite (110 / 100), Finite (290 / 100))),
        (95 / 100, (Finite (105 / 100), Finite (295 / 100)))]"
  using z_entries_first_occurrence [of "[1, 3]" uniform_ppf "[99 / 100, 90 / 100, 95 / 100]"]
    z_entries_first_occurrence [of "[1, 3]" uniform_ppf "[90 / 100, 95 / 100, 90 / 100]"]
  by (simp add: uniform_ppf_def average_1_3 unbiased_1_3 spec_interval_def spec_margin_def)

text \<open>
  The claim promises one entry per element of the input, duplicates included, for every
  sample. Two equal levels give a single entry, and a sample of one element gives none.
\<close>

theorem duplicate_levels_counterexample:
  "snd (calculate_confidence_intervals uniform_ppf [1, 3] [90 / 100, 90 / 100])
     = [(90 / 100, (Finite (110 / 100), Finite (290 / 100)))]
   \<and> length (snd (calculate_confidence_intervals uniform_ppf [1, 3] [90 / 100, 90 / 100])) = 1
   \<and> length [90 / 100, 90 / 100 :: real] = 2
   \<and> snd (calculate_confidence_intervals uniform_ppf [5] [90 / 100]) = []"
proof -
  have n: "2 \<le> length [1, 3 :: real]" by simp
  have "snd (calculate_confidence_intervals uniform_ppf [1, 3] [90 / 100, 90 / 100])
     = [(90 / 100, (Finite (110 / 100), Finite (290 / 100)))]"
    by (simp add: z_entries [OF n] uniform_ppf_def average_1_3 unbiased_1_3 spec_interval_def
        spec_margin_def)
  then show ?thesis
    by (simp add: z_short)
qed

text \<open>The same count with any quantile function and any level.\<close>

lemma duplicate_levels_any_ppf:
  "length (snd (calculate_confidence_intervals ppf [1, 3] [c, c])) = 1"
proof -
  have n: "2 \<le> length [1, 3 :: real]" by simp
  show ?thesis by (simp add: z_entries [OF n])
qed

section \<open>The sample validator\<close>

text \<open>
  C4, as the code has it. \<open>validate_data\<close> returns \<open>(False, message)\<close> exactly when the
  sample has fewer than two elements, and \<open>(True, None)\<close> exactly when it has two or more.
  The message is the string \<^verbatim>\<open>Not enough data points for analysis.\<close>; the function is
  pure, so it has no effect besides its result.
\<close>

theorem validate_data_result:
  "(validate_data data = (False, Some ''Not enough data points for analysis.'')) = (length data < 2)
   \<and> (validate_data data = (True, None)) = (2 \<le> length data)"
  by (auto simp: validate_data_def)

text \<open>
  The claim names the reason \<^verbatim>\<open>insufficient data\<close>; on the empty sample the code
  returns another string.
\<close>

theorem validate_data_message_counterexample:
  "validate_data [] \<noteq> (False, Some ''insufficient data'')"
  by (simp add: validate_data_def)

section \<open>Samples of fewer than two elements\<close>

text \<open>
  C5. On a sample of at most one element \<open>calculate_confidence_intervals\<close> returns the
  mean (the element of a one-element sample, not a number on the empty one) with an empty
  mapping, and \<open>calculate_confidence_interval_se\<close> returns \<open>None\<close>. Both are ordinary
  results: the model has no error value because the code has no \<^verbatim>\<open>raise\<close> on these paths
  and numpy answers the degenerate divisions with a warning. The validator reports the same
  samples as invalid.
\<close>

theorem degenerate_results:
  assumes "length data \<le> 1"
  shows "calculate_confidence_intervals ppf data levels = (np_mean data, [])
    \<and> np_mean data = (case data of [] \<Rightarrow> NotFinite | x # _ \<Rightarrow> Finite x)
    \<and> calculate_confidence_interval_se data k = None
    \<and> fst (validate_data data) = False"
  using assms
  by (simp add: calculate_confidence_intervals_def calculate_confidence_interval_se_def
      validate_data_def np_mean_short Let_def)

theorem degenerate_results_witness:
  "length [5::real] \<le> 1
   \<and> calculate_confidence_intervals uniform_ppf [5] [0.95] = (Finite 5, [])
   \<and> calculate_confidence_interval_se [5] 1.96 = None
   \<and> fst (validate_data [5]) = False"
  using degenerate_results [of "[5]" uniform_ppf "[0.95]" "1.96"]
  by (simp add: np_mean_def)

section \<open>What is computed below two elements\<close>

text \<open>
  C6, as the code has it. Both calculators compute \<^verbatim>\<open>np.mean\<close> and \<^verbatim>\<open>np.std\<close> before they
  look at the length. For a sample of fewer than two elements no interval is computed (the
  mapping is empty, the standard-error result is \<open>None\<close>) and the standard deviation is not
  a number; the mean is computed all the same and returned by
  \<open>calculate_confidence_intervals\<close>: the element of a one-element sample, not a number on
  the empty sample.
\<close>

theorem short_sample_no_interval:
  assumes "length data < 2"
  shows "snd (calculate_confidence_intervals ppf data levels) = []
    \<and> calculate_confidence_interval_se data k = None
    \<and> np_std data 1 = NotFinite
    \<and> fst (calculate_confidence_intervals ppf data levels)
        = (case data of [] \<Rightarrow> NotFinite | x # _ \<Rightarrow> Finite x)"
proof -
  from assms have le: "length data \<le> 1" by simp
  have "fst (calculate_confidence_intervals ppf data levels) = np_mean data"
    using le by (simp add: calculate_confidence_intervals_def Let_def)
  then show ?thesis
    using le by (simp add: z_short np_std_short np_mean_short
        calculate_confidence_interval_se_def Let_def)
qed

theorem short_sample_no_interval_witness:
  "length [5 :: real] < 2
   \<and> calculate_confidence_intervals uniform_ppf [5] [95 / 100] = (Finite 5, [])
   \<and> calculate_confidence_interval_se [5] (196 / 100) = None
   \<and> np_std [5] 1 = NotFinite"
  using short_sample_no_interval [of "[5]" uniform_ppf "[95 / 100]" "196 / 100"]
  by (simp add: prod_eq_iff)

text \<open>
  The claim has no moment computed below two elements; on the sample \<open>[5]\<close> the mean is
  computed, is the number 5, and is returned.
\<close>

theorem mean_computed_counterexample:
  "length [5 :: real] < 2
   \<and> fst (calculate_confidence_intervals uniform_ppf [5] [95 / 100]) = Finite 5"
  by (simp add: calculate_confidence_intervals_def np_mean_def Let_def)

section \<open>The standard-error calculator\<close>

text \<open>
  C7. For a sample of at least two elements and any multiplier \<open>k\<close>, non-negative or not,
  \<open>calculate_confidence_interval_se\<close> returns \<open>(mean - margin, mean + margin)\<close> with
  \<open>margin = k * stddev / sqrt n\<close>; with \<open>k = 0\<close> it returns \<open>(mean, mean)\<close>.
\<close>

theorem se_interval_formula:
  assumes "2 \<le> length data"
  shows "calculate_confidence_interval_se data k = Some (spec_interval (Finite k) data)
    \<and> calculate_confidence_interval_se data k =
        Some (Finite (arithmetic_average data - k * unbiased_stddev data / sqrt (real (length data))),
              Finite (arithmetic_average data + k * unbiased_stddev data / sqrt (real (length data))))
    \<and> calculate_confidence_interval_se data 0 =
        Some (Finite (arithmetic_average data), Finite (arithmetic_average data))"
  using se_interval [OF assms, of k] se_interval [OF assms, of 0] se_spec [OF assms, of k]
  by simp

theorem se_interval_formula_witness:
  "2 \<le> length [1, 2, 3, 4, 5 :: real]
   \<and> calculate_confidence_interval_se [1, 2, 3, 4, 5] 0 = Some (Finite 3, Finite 3)
   \<and> 2 \<le> length [1, 3 :: real]
   \<and> calculate_confidence_interval_se [1, 3] (196 / 100)
       = Some (Finite (4 / 100), Finite (396 / 100))"
  using se_interval_formula [of "[1, 2, 3, 4, 5]" 0] se_interval_formula [of "[1, 3]" "196 / 100"]
  by (simp add: average_1_to_5 average_1_3 unbiased_1_3 spec_interval_def spec_margin_def)

section \<open>Monotonicity of the margin of error\<close>

text \<open>
  C8, as the code has it. Fix a sample of at least two elements and a quantile function
  that is 0 at \<open>1/2\<close> and strictly increasing from there up to 1. The half-width of the
  interval
  \<^item> does not decrease when the confidence level grows within \<open>(0, 1)\<close>, and grows
    strictly when the standard deviation of the sample is positive;
  \<^item> does not decrease when the standard-error multiplier grows, and grows strictly when
    the standard deviation is positive;
  \<^item> does not increase when the sample is replaced by one at least as long with the same
    standard deviation, for a non-negative multiplier and for a level within \<open>(0, 1)\<close>.
\<close>

theorem margin_monotone:
  assumes n: "2 \<le> length data" and q: "increasing_quantile ppf"
  shows "(\<forall>c1 c2 iv1 iv2.
        0 < c1 \<and> c1 \<le> c2 \<and> c2 < 1
        \<and> map_of (snd (calculate_confidence_intervals ppf data levels)) c1 = Some iv1
        \<and> map_of (snd (calculate_confidence_intervals ppf data levels)) c2 = Some iv2
        \<longrightarrow> half_width iv1 \<le> half_width iv2
          \<and> (c1 < c2 \<and> Finite 0 < np_std data 1 \<longrightarrow> half_width iv1 < half_width iv2))
    \<and> (\<forall>k1 k2 iv1 iv2.
        k1 \<le> k2
        \<and> calculate_confidence_interval_se data k1 = Some iv1
        \<and> calculate_confidence_interval_se data k2 = Some iv2
        \<longrightarrow> half_width iv1 \<le> half_width iv2
          \<and> (k1 < k2 \<and> Finite 0 < np_std data 1 \<longrightarrow> half_width iv1 < half_width iv2))
    \<and> (\<forall>data' k iv iv'.
        length data \<le> length data' \<and> np_std data' 1 = np_std data 1 \<and> 0 \<le> k
        \<and> calculate_confidence_interval_se data k = Some iv
        \<and> calculate_confidence_interval_se data' k = Some iv'
        \<longrightarrow> half_width iv' \<le> half_width iv)
    \<and> (\<forall>data' levels' c iv iv'.
        length data \<le> length data' \<and> np_std data' 1 = np_std data 1 \<and> 0 < c \<and> c < 1
        \<and> map_of (snd (calculate_confidence_intervals ppf data levels)) c = Some iv
        \<and> map_of (snd (calculate_confidence_intervals ppf data' levels')) c = Some iv'
        \<longrightarrow> half_width iv' \<le> half_width iv)"
proof (intro conjI allI impI)
  fix c1 c2 iv1 iv2
  assume a: "0 < c1 \<and> c1 \<le> c2 \<and> c2 < 1
        \<and> map_of (snd (calculate_confidence_intervals ppf data levels)) c1 = Some iv1
        \<and> map_of (snd (calculate_confidence_intervals ppf data levels)) c2 = Some iv2"
  then have c: "0 < c1" "c1 \<le> c2" "c2 < 1"
    and l1: "map_of (snd (calculate_confidence_intervals ppf data levels)) c1 = Some iv1"
    and l2: "map_of (snd (calculate_confidence_intervals ppf data levels)) c2 = Some iv2"
    by simp_all
  show "half_width iv1 \<le> half_width iv2"
    by (rule margin_level_mono(1) [OF n q c l1 l2])
  assume "c1 < c2 \<and> Finite 0 < np_std data 1"
  then show "half_width iv1 < half_width iv2"
    using margin_level_mono(2) [OF n q c l1 l2] by simp
next
  fix k1 k2 iv1 iv2
  assume a: "k1 \<le> k2
        \<and> calculate_confidence_interval_se data k1 = Some iv1
        \<and> calculate_confidence_interval_se data k2 = Some iv2"
  then have k: "k1 \<le> k2"
    and l1: "calculate_confidence_interval_se data k1 = Some iv1"
    and l2: "calculate_confidence_interval_se data k2 = Some iv2"
    by simp_all
  show "half_width iv1 \<le> half_width iv2"
    by (rule margin_multiplier_mono(1) [OF n k l1 l2])
  assume "k1 < k2 \<and> Finite 0 < np_std data 1"
  then show "half_width iv1 < half_width iv2"
    using margin_multiplier_mono(2) [OF n k l1 l2] by simp
next
  fix data' k iv iv'
  assume "length data \<le> length data' \<and> np_std data' 1 = np_std data 1 \<and> 0 \<le> k
        \<and> calculate_confidence_interval_se data k = Some iv
        \<and> calculate_confidence_interval_se data' k = Some iv'"
  then show "half_width iv' \<le> half_width iv"
    using margin_size_se [OF n, of data' k iv iv'] by simp
next
  fix data' levels' c iv iv'
  assume "length data \<le> length data' \<and> np_std data' 1 = np_std data 1 \<and> 0 < c \<and> c < 1
        \<and> map_of (snd (calculate_confidence_intervals ppf data levels)) c = Some iv
        \<and> map_of (snd (calculate_confidence_intervals ppf data' levels')) c = Some iv'"
  then show "half_width iv' \<le> half_width iv"
    using margin_size_z [OF n q, of data' c levels iv levels' iv'] by simp
qed

theorem margin_monotone_witness:
  "2 \<le> length [1, 3 :: real] \<and> increasing_quantile uniform_ppf
   \<and> Finite 0 < np_std [1, 3] 1
   \<and> map_of (snd (calculate_confidence_intervals uniform_ppf [1, 3] [1 / 2, 9 / 10])) (1 / 2)
       = Some (Finite (3 / 2), Finite (5 / 2))
   \<and> map_of (snd (calculate_confidence_intervals uniform_ppf [1, 3] [1 / 2, 9 / 10])) (9 / 10)
       = Some (Finite (11 / 10), Finite (29 / 10))
   \<and> half_width (Finite (3 / 2), Finite (5 / 2)) < half_width (Finite (11 / 10), Finite (29 / 10))
   \<and> calculate_confidence_interval_se [1, 3] 1 = Some (Finite 1, Finite 3)
   \<and> calculate_confidence_interval_se [1, 3] 2 = Some (Finite 0, Finite 4)
   \<and> half_width (Finite 1, Finite 3) < half_width (Finite 0, Finite 4)
   \<and> length [1, 3 :: real] \<le> length [2, - 1, - 1, 0 :: real]
   \<and> np_std [2, - 1, - 1, 0] 1 = np_std [1, 3] 1
   \<and> calculate_confidence_interval_se [2, - 1, - 1, 0] 1
       = Some (Finite (- (sqrt 2 / 2)), Finite (sqrt 2 / 2))
   \<and> half_width (Finite (- (sqrt 2 / 2)), Finite (sqrt 2 / 2)) \<le> half_width (Finite 1, Finite 3)
   \<and> map_of (snd (calculate_confidence_intervals uniform_ppf [2, - 1, - 1, 0] [1 / 2])) (1 / 2)
       = Some (Finite (- (sqrt 2 / 4)), Finite (sqrt 2 / 4))
   \<and> half_width (Finite (- (sqrt 2 / 4)), Finite (sqrt 2 / 4))
       \<le> half_width (Finite (3 / 2), Finite (5 / 2))"
proof -
  let ?L = "[1 / 2, 9 / 10 :: real]"
  have n: "2 \<le> length [1, 3 :: real]" by simp
  have n4: "2 \<le> length [2, - 1, - 1, 0 :: real]" by simp
  have le: "length [1, 3 :: real] \<le> length [2, - 1, - 1, 0 :: real]" by simp
  note q = uniform_ppf_increasing
  have s: "np_std [1, 3] 1 = Finite (sqrt 2)"
    unfolding np_std_unbiased [OF n] unbiased_1_3 by (rule refl)
  have s4: "np_std [2, - 1, - 1, 0] 1 = Finite (sqrt 2)"
    unfolding np_std_unbiased [OF n4] unbiased_4 by (rule refl)
  have pos: "Finite 0 < np_std [1, 3] 1" unfolding s by simp
  have a1: "map_of (snd (calculate_confidence_intervals uniform_ppf [1, 3] ?L)) (1 / 2)
       = Some (Finite (3 / 2), Finite (5 / 2))"
    by (simp add: z_lookup [OF n] uniform_ppf_def average_1_3 unbiased_1_3 spec_interval_def
        spec_margin_def)
  have a2: "map_of (snd (calculate_confidence_intervals uniform_ppf [1, 3] ?L)) (9 / 10)
       = Some (Finite (11 / 10), Finite (29 / 10))"
    by (simp add: z_lookup [OF n] uniform_ppf_def average_1_3 unbiased_1_3 spec_interval_def
        spec_margin_def)
  have b1: "calculate_confidence_interval_se [1, 3] 1 = Some (Finite 1, Finite 3)"
    using se_interval [OF n, of 1] by (simp add: average_1_3 unbiased_1_3)
  have b2: "calculate_confidence_interval_se [1, 3] 2 = Some (Finite 0, Finite 4)"
    using se_interval [OF n, of 2] by (simp add: average_1_3 unbiased_1_3)
  have c1: "calculate_confidence_interval_se [2, - 1, - 1, 0] 1
       = Some (Finite (- (sqrt 2 / 2)), Finite (sqrt 2 / 2))"
    using se_interval [OF n4, of 1] by (simp add: average_4 unbiased_4)
  have d1: "map_of (snd (calculate_confidence_intervals uniform_ppf [2, - 1, - 1, 0] [1 / 2])) (1 / 2)
       = Some (Finite (- (sqrt 2 / 4)), Finite (sqrt 2 / 4))"
    by (simp add: z_lookup [OF n4] uniform_ppf_def average_4 unbiased_4 spec_interval_def
        spec_margin_def)
  note T = margin_monotone [OF n q, of ?L]
  have r1: "(0 :: real) < 1 / 2 \<and> (1 / 2 :: real) \<le> 9 / 10 \<and> (9 / 10 :: real) < 1
      \<and> (1 / 2 :: real) < 9 / 10 \<and> (1 / 2 :: real) < 1" by simp
  have r2: "(1 :: real) \<le> 2 \<and> (1 :: real) < 2 \<and> (0 :: real) \<le> 1" by simp
  from T r1 a1 a2 pos
  have A: "half_width (Finite (3 / 2), Finite (5 / 2)) < half_width (Finite (11 / 10), Finite (29 / 10))"
    by blast
  from T r2 b1 b2 pos
  have B: "half_width (Finite 1, Finite 3) < half_width (Finite 0, Finite 4)"
    by blast
  have eq: "np_std [2, - 1, - 1, 0] 1 = np_std [1, 3] 1" unfolding s s4 by (rule refl)
  from T r2 le eq b1 c1
  have C: "half_width (Finite (- (sqrt 2 / 2)), Finite (sqrt 2 / 2)) \<le> half_width (Finite 1, Finite 3)"
    by blast
  from T r1 le eq a1 d1
  have D: "half_width (Finite (- (sqrt 2 / 4)), Finite (sqrt 2 / 4))
       \<le> half_width (Finite (3 / 2), Finite (5 / 2))"
    by blast
  from n q pos a1 a2 A b1 b2 B le eq c1 C d1 D show ?thesis by blast
qed

text \<open>
  The claim has the half-width grow strictly with the level. On the constant sample
  \<open>[3, 3]\<close> the standard deviation is 0 and the intervals of the levels \<open>1/2\<close> and \<open>9/10\<close>
  are both \<open>(3, 3)\<close>; \<open>constant_sample_zero_width\<close> shows the same for any quantile
  function.
\<close>

theorem constant_sample_counterexample:
  "2 \<le> length [3, 3 :: real] \<and> increasing_quantile uniform_ppf
   \<and> (0 :: real) < 1 / 2 \<and> (1 / 2 :: real) < 9 / 10 \<and> (9 / 10 :: real) < 1
   \<and> map_of (snd (calculate_confidence_intervals uniform_ppf [3, 3] [1 / 2, 9 / 10])) (1 / 2)
       = Some (Finite 3, Finite 3)
   \<and> map_of (snd (calculate_confidence_intervals uniform_ppf [3, 3] [1 / 2, 9 / 10])) (9 / 10)
       = Some (Finite 3, Finite 3)
   \<and> \<not> half_width (Finite 3, Finite 3) < half_width (Finite 3, Finite 3)"
proof -
  have u1: "uniform_ppf ((1 + 1 / 2) / 2) = Finite (1 / 2)"
    and u2: "uniform_ppf ((1 + 9 / 10) / 2) = Finite (9 / 10)"
    by (simp_all add: uniform_ppf_def)
  have m1: "(1 / 2 :: real) \<in> set [1 / 2, 9 / 10]" and m2: "(9 / 10 :: real) \<in> set [1 / 2, 9 / 10]"
    by simp_all
  have "\<not> half_width (Finite 3, Finite 3) < half_width (Finite 3, Finite 3)"
    by (simp add: half_width_def)
  with constant_sample_zero_width [of "1 / 2" "[1 / 2, 9 / 10]" uniform_ppf "1 / 2" 3, OF m1 u1]
    constant_sample_zero_width [of "9 / 10" "[1 / 2, 9 / 10]" uniform_ppf "9 / 10" 3, OF m2 u2]
    uniform_ppf_increasing
  show ?thesis by simp
qed

section \<open>Symmetry about the mean\<close>

text \<open>
  C9. Every interval \<open>(lower, upper)\<close> that \<open>calculate_confidence_interval_se\<close> returns,
  and every interval that \<open>calculate_confidence_intervals\<close> stores under a level whose
  critical value is finite (every level strictly between 0 and 1), satisfies
  \<open>mean - lower = upper - mean\<close>, both sides being finite numbers.
\<close>

theorem intervals_symmetric:
  "(calculate_confidence_interval_se data k = Some (lower, upper) \<longrightarrow>
      np_mean data - lower = upper - np_mean data \<and> np_mean data - lower \<noteq> NotFinite)
   \<and> ((c, (lower', upper')) \<in> set (snd (calculate_confidence_intervals ppf data levels))
        \<and> ppf ((1 + c) / 2) = Finite z \<longrightarrow>
      fst (calculate_confidence_intervals ppf data levels) - lower'
        = upper' - fst (calculate_confidence_intervals ppf data levels)
      \<and> fst (calculate_confidence_intervals ppf data levels) - lower' \<noteq> NotFinite)"
proof (intro conjI impI)
  assume a: "calculate_confidence_interval_se data k = Some (lower, upper)"
  have n: "2 \<le> length data" by (rule se_Some_length [OF a])
  have m: "np_mean data = Finite (arithmetic_average data)"
    by (rule np_mean_average [OF two_le_length_ne [OF n]])
  from a se_interval [OF n, of k]
  have lu: "lower = Finite (arithmetic_average data - k * (unbiased_stddev data / sqrt (real (length data))))"
    "upper = Finite (arithmetic_average data + k * (unbiased_stddev data / sqrt (real (length data))))"
    by simp_all
  show "np_mean data - lower = upper - np_mean data" unfolding m lu by simp
  show "np_mean data - lower \<noteq> NotFinite" unfolding m lu by simp
next
  assume a: "(c, (lower', upper')) \<in> set (snd (calculate_confidence_intervals ppf data levels))
        \<and> ppf ((1 + c) / 2) = Finite z"
  then have mem: "(c, (lower', upper')) \<in> set (snd (calculate_confidence_intervals ppf data levels))"
    and z: "ppf ((1 + c) / 2) = Finite z" by simp_all
  have n: "2 \<le> length data" by (rule z_member_length [OF mem])
  have ne: "data \<noteq> []" by (rule two_le_length_ne [OF n])
  have m: "fst (calculate_confidence_intervals ppf data levels) = Finite (arithmetic_average data)"
    by (simp add: z_spec [OF n])
  from z_member_interval [OF mem] z
  have lu: "lower' = Finite (arithmetic_average data - z * unbiased_stddev data / sqrt (real (length data)))"
    "upper' = Finite (arithmetic_average data + z * unbiased_stddev data / sqrt (real (length data)))"
    by (simp_all add: spec_interval_Finite [OF ne])
  show "fst (calculate_confidence_intervals ppf data levels) - lower'
        = upper' - fst (calculate_confidence_intervals ppf data levels)"
    unfolding m lu by simp
  show "fst (calculate_confidence_intervals ppf data levels) - lower' \<noteq> NotFinite"
    unfolding m lu by simp
qed

theorem intervals_symmetric_witness:
  "calculate_confidence_interval_se [1, 3] 1 = Some (Finite 1, Finite 3)
   \<and> np_mean [1, 3] = Finite 2
   \<and> np_mean [1, 3] - Finite 1 = Finite 3 - np_mean [1, 3]
   \<and> (95 / 100, (Finite (105 / 100), Finite (295 / 100)))
        \<in> set (snd (calculate_confidence_intervals uniform_ppf [1, 3] [90 / 100, 95 / 100]))
   \<and> uniform_ppf ((1 + 95 / 100) / 2) = Finite (95 / 100)
   \<and> fst (calculate_confidence_intervals uniform_ppf [1, 3] [90 / 100, 95 / 100]) - Finite (105 / 100)
       = Finite (295 / 100) - fst (calculate_confidence_intervals uniform_ppf [1, 3] [90 / 100, 95 / 100])"
proof -
  have n: "2 \<le> length [1, 3 :: real]" by simp
  have e: "calculate_confidence_interval_se [1, 3] 1 = Some (Finite 1, Finite 3)"
    using se_interval [OF n, of 1] by (simp add: average_1_3 unbiased_1_3)
  have u: "uniform_ppf ((1 + 95 / 100) / 2) = Finite (95 / 100)"
    by (simp add: uniform_ppf_def)
  have d: "(95 / 100, (Finite (105 / 100), Finite (295 / 100)))
        \<in> set (snd (calculate_confidence_intervals uniform_ppf [1, 3] [90 / 100, 95 / 100]))"
    by (simp add: z_entries [OF n] uniform_ppf_def average_1_3 unbiased_1_3 spec_interval_def
        spec_margin_def)
  have m: "np_mean [1, 3] = Finite 2" by (simp add: np_mean_def)
  from intervals_symmetric [of "[1, 3]" 1 "Finite 1" "Finite 3" "95 / 100" "Finite (105 / 100)"
      "Finite (295 / 100)" uniform_ppf "[90 / 100, 95 / 100]" "95 / 100"] e u d m
  show ?thesis by simp
qed

section \<open>The two calculators agree\<close>

text \<open>
  C10. For a sample of at least two elements and a level \<open>c\<close> of the sequence whose critical
  value \<open>ppf ((1 + c) / 2)\<close> is the finite number \<open>k\<close> (as it is for every \<open>c\<close> strictly
  between 0 and 1), \<open>calculate_confidence_interval_se\<close> with the multiplier \<open>k\<close> returns the
  interval that \<open>calculate_confidence_intervals\<close> stores under \<open>c\<close>.
\<close>

theorem calculators_agree:
  assumes "2 \<le> length data" and "c \<in> set levels" and "ppf ((1 + c) / 2) = Finite k"
  shows "calculate_confidence_interval_se data k
     = map_of (snd (calculate_confidence_intervals ppf data levels)) c"
  using assms by (simp add: z_lookup se_spec)

theorem calculators_agree_witness:
  "2 \<le> length [1, 3 :: real] \<and> 95 / 100 \<in> set default_confidence_levels
   \<and> uniform_ppf ((1 + 95 / 100) / 2) = Finite (95 / 100)
   \<and> calculate_confidence_interval_se [1, 3] (95 / 100)
       = map_of (snd (calculate_confidence_intervals uniform_ppf [1, 3] default_confidence_levels))
           (95 / 100)
   \<and> calculate_confidence_interval_se [1, 3] (95 / 100)
       = Some (Finite (105 / 100), Finite (295 / 100))"
proof -
  have l: "95 / 100 \<in> set default_confidence_levels"
    by (simp add: default_confidence_levels_def)
  have u: "uniform_ppf ((1 + 95 / 100) / 2) = Finite (95 / 100)"
    by (simp add: uniform_ppf_def)
  have n: "2 \<le> length [1, 3 :: real]" by simp
  have e: "calculate_confidence_interval_se [1, 3] (95 / 100)
       = Some (Finite (105 / 100), Finite (295 / 100))"
    using se_interval [OF n, of "95 / 100"] by (simp add: average_1_3 unbiased_1_3)
  from calculators_agree [of "[1, 3]" "95 / 100" default_confidence_levels uniform_ppf "95 / 100", OF n l u]
    l u n e
  show ?thesis by simp
qed

end
